theory Spec2Isabelle
  imports Main
begin

section \<open>Data model\<close>

text \<open>
  The driver in \<^verbatim>\<open>run_interactive_research_workflow.py\<close> talks to a workflow engine
  through a client and a workflow handle, reads answers from the terminal and prints
  messages. Every one of these calls is an event of the model; the engine, the clock and
  the terminal are a deterministic machine over a hidden world state \<open>'w\<close>.

  Python exceptions are values. All of the classes below derive from \<^verbatim>\<open>Exception\<close>,
  so each of them is caught by \<^verbatim>\<open>except Exception\<close>.
\<close>

datatype exn =
    Exception string
  | RuntimeError string
  | AttributeError string
  | TypeError string

text \<open>A workflow handle, identified by the workflow id it addresses. Handle objects are truthy.\<close>

datatype handle = WorkflowHandle string

text \<open>
  \<^verbatim>\<open>ResearchInteraction\<close>, the status snapshot returned by the \<^verbatim>\<open>get_status\<close> query and
  by the \<^verbatim>\<open>provide_single_clarification\<close> update. Its class is imported from
  \<^verbatim>\<open>research_models\<close>; the fields are the ones the driver reads.
\<close>

record ResearchInteraction =
  status :: string
  clarification_questions :: "string list option"
  current_question_index :: "int option"
  final_result :: "string option"

text \<open>
  Modelled from the spec: \<^verbatim>\<open>ResearchInteraction.get_current_question\<close> is defined in
  \<^verbatim>\<open>research_models\<close>, which is not among the sources. The spec: the current question is
  the question at \<open>current_question_index\<close> if that index is within bounds of
  \<open>clarification_questions\<close>, else none.
\<close>

definition get_current_question :: "ResearchInteraction \<Rightarrow> string option" where
  "get_current_question st =
     (case clarification_questions st of
        None \<Rightarrow> None
      | Some qs \<Rightarrow>
          (case current_question_index st of
             None \<Rightarrow> None
           | Some i \<Rightarrow> if 0 \<le> i \<and> i < int (length qs) then Some (qs ! nat i) else None))"

record SingleClarificationInput =
  question_index :: int
  answer :: string

text \<open>
  The calls the driver makes on its environment. Each takes the world and returns the
  response with the next world. \<open>start_workflow\<close> takes the \<^verbatim>\<open>args\<close>, the \<^verbatim>\<open>id\<close> and the
  \<^verbatim>\<open>task_queue\<close>; \<open>describe\<close> returns \<^verbatim>\<open>desc.status\<close>, which the driver compares with
  strings; \<open>time_time\<close> returns \<^verbatim>\<open>int(time.time())\<close>.
\<close>

record 'w engine =
  get_workflow_handle :: "string \<Rightarrow> 'w \<Rightarrow> (exn + handle) \<times> 'w"
  start_workflow :: "(string option \<times> bool) \<Rightarrow> string \<Rightarrow> string \<Rightarrow> 'w \<Rightarrow> (exn + handle) \<times> 'w"
  query_get_status :: "handle \<Rightarrow> 'w \<Rightarrow> (exn + ResearchInteraction option) \<times> 'w"
  update_start_research :: "handle \<Rightarrow> string \<Rightarrow> 'w \<Rightarrow> (exn + unit) \<times> 'w"
  update_provide_single_clarification ::
    "handle \<Rightarrow> SingleClarificationInput \<Rightarrow> 'w \<Rightarrow> (exn + ResearchInteraction option) \<times> 'w"
  signal_end_workflow :: "handle \<Rightarrow> 'w \<Rightarrow> (exn + unit) \<times> 'w"
  describe :: "handle \<Rightarrow> 'w \<Rightarrow> (exn + string) \<times> 'w"
  result :: "handle \<Rightarrow> 'w \<Rightarrow> (exn + string) \<times> 'w"
  time_time :: "'w \<Rightarrow> int \<times> 'w"
  input :: "'w \<Rightarrow> (exn + string) \<times> 'w"
  sleep :: "nat \<Rightarrow> 'w \<Rightarrow> 'w"

text \<open>
  The messages of the \<^verbatim>\<open>print\<close> statements of the driver, one constructor per statement,
  in source order, with the values the statement interpolates.
\<close>

datatype msg =
    Msg_starting_interactive_research string
  | Msg_checking_if_running
  | Msg_found_existing
  | Msg_existing_not_running
  | Msg_could_not_query
  | Msg_workflow_not_found
  | Msg_starting_new_workflow string
  | Msg_failed_to_start exn
  | Msg_initiating_research string
  | Msg_need_clarifying_questions
  | Msg_rule
  | Msg_question_of int nat
  | Msg_question string
  | Msg_ending_session
  | Msg_research_in_progress
  | Msg_planning_searches
  | Msg_gathering_information
  | Msg_compiling_report
  | Msg_please_wait
  | Msg_starting_research
  | Msg_unexpected_status string
  | Msg_error_during_interaction exn
  | Msg_workflow_terminated string
  | Msg_research_completed
  | Msg_research_result_header
  | Msg_double_rule
  | Msg_research_result string

text \<open>The trace: every call with its response, and every message, in program order.\<close>

datatype event =
    Print msg
  | Get_workflow_handle string "exn + handle"
  | Query_get_status handle "exn + ResearchInteraction option"
  | Time_time int
  | Start_workflow "string option \<times> bool" string string "exn + handle"
  | Update_start_research handle string "exn + unit"
  | Input "exn + string"
  | Signal_end_workflow handle "exn + unit"
  | Update_provide_single_clarification handle SingleClarificationInput
      "exn + ResearchInteraction option"
  | Sleep nat
  | Describe handle "exn + string"
  | Result handle "exn + string"

record 'w dstate =
  world :: 'w
  trace :: "event list"

section \<open>The calls, as state transformers\<close>

definition print :: "msg \<Rightarrow> 'w dstate \<Rightarrow> 'w dstate" where
  "print m s = s\<lparr>trace := trace s @ [Print m]\<rparr>"

definition call_get_workflow_handle ::
  "'w engine \<Rightarrow> string \<Rightarrow> 'w dstate \<Rightarrow> (exn + handle) \<times> 'w dstate" where
  "call_get_workflow_handle eng wid s =
     (case get_workflow_handle eng wid (world s) of
        (r, w) \<Rightarrow> (r, \<lparr>world = w, trace = trace s @ [Get_workflow_handle wid r]\<rparr>))"

definition call_start_workflow ::
  "'w engine \<Rightarrow> (string option \<times> bool) \<Rightarrow> string \<Rightarrow> string \<Rightarrow> 'w dstate
     \<Rightarrow> (exn + handle) \<times> 'w dstate" where
  "call_start_workflow eng args wid queue s =
     (case start_workflow eng args wid queue (world s) of
        (r, w) \<Rightarrow> (r, \<lparr>world = w, trace = trace s @ [Start_workflow args wid queue r]\<rparr>))"

definition call_query ::
  "'w engine \<Rightarrow> handle \<Rightarrow> 'w dstate \<Rightarrow> (exn + ResearchInteraction option) \<times> 'w dstate" where
  "call_query eng h s =
     (case query_get_status eng h (world s) of
        (r, w) \<Rightarrow> (r, \<lparr>world = w, trace = trace s @ [Query_get_status h r]\<rparr>))"

definition call_update_start_research ::
  "'w engine \<Rightarrow> handle \<Rightarrow> string \<Rightarrow> 'w dstate \<Rightarrow> (exn + unit) \<times> 'w dstate" where
  "call_update_start_research eng h q s =
     (case update_start_research eng h q (world s) of
        (r, w) \<Rightarrow> (r, \<lparr>world = w, trace = trace s @ [Update_start_research h q r]\<rparr>))"

definition call_update_provide_single_clarification ::
  "'w engine \<Rightarrow> handle \<Rightarrow> SingleClarificationInput \<Rightarrow> 'w dstate
     \<Rightarrow> (exn + ResearchInteraction option) \<times> 'w dstate" where
  "call_update_provide_single_clarification eng h p s =
     (case update_provide_single_clarification eng h p (world s) of
        (r, w) \<Rightarrow>
          (r, \<lparr>world = w, trace = trace s @ [Update_provide_single_clarification h p r]\<rparr>))"

definition call_signal ::
  "'w engine \<Rightarrow> handle \<Rightarrow> 'w dstate \<Rightarrow> (exn + unit) \<times> 'w dstate" where
  "call_signal eng h s =
     (case signal_end_workflow eng h (world s) of
        (r, w) \<Rightarrow> (r, \<lparr>world = w, trace = trace s @ [Signal_end_workflow h r]\<rparr>))"

definition call_describe ::
  "'w engine \<Rightarrow> handle \<Rightarrow> 'w dstate \<Rightarrow> (exn + string) \<times> 'w dstate" where
  "call_describe eng h s =
     (case describe eng h (world s) of
        (r, w) \<Rightarrow> (r, \<lparr>world = w, trace = trace s @ [Describe h r]\<rparr>))"

definition call_result ::
  "'w engine \<Rightarrow> handle \<Rightarrow> 'w dstate \<Rightarrow> (exn + string) \<times> 'w dstate" where
  "call_result eng h s =
     (case result eng h (world s) of
        (r, w) \<Rightarrow> (r, \<lparr>world = w, trace = trace s @ [Result h r]\<rparr>))"

definition call_time :: "'w engine \<Rightarrow> 'w dstate \<Rightarrow> int \<times> 'w dstate" where
  "call_time eng s =
     (case time_time eng (world s) of
        (t, w) \<Rightarrow> (t, \<lparr>world = w, trace = trace s @ [Time_time t]\<rparr>))"

definition call_input :: "'w engine \<Rightarrow> 'w dstate \<Rightarrow> (exn + string) \<times> 'w dstate" where
  "call_input eng s =
     (case input eng (world s) of
        (r, w) \<Rightarrow> (r, \<lparr>world = w, trace = trace s @ [Input r]\<rparr>))"

definition call_sleep :: "'w engine \<Rightarrow> nat \<Rightarrow> 'w dstate \<Rightarrow> 'w dstate" where
  "call_sleep eng d s = \<lparr>world = sleep eng d (world s), trace = trace s @ [Sleep d]\<rparr>"

section \<open>Strings\<close>

text \<open>
  Strings are ASCII here. \<^verbatim>\<open>str.strip()\<close> removes the ASCII whitespace of Python
  (tab, line feed, vertical tab, form feed, carriage return, the separators 0x1C to 0x1F
  and the space) from both ends; \<^verbatim>\<open>str.lower()\<close> maps A to Z to a to z.
\<close>

definition is_space :: "char \<Rightarrow> bool" where
  "is_space c = (let n = (of_char c :: nat) in (9 \<le> n \<and> n \<le> 13) \<or> (28 \<le> n \<and> n \<le> 32))"

definition strip :: "string \<Rightarrow> string" where
  "strip s = rev (dropWhile is_space (rev (dropWhile is_space s)))"

definition lower_char :: "char \<Rightarrow> char" where
  "lower_char c =
     (let n = (of_char c :: nat) in if 65 \<le> n \<and> n \<le> 90 then char_of (n + 32) else c)"

definition lower :: "string \<Rightarrow> string" where
  "lower s = map lower_char s"

text \<open>\<^verbatim>\<open>str(n)\<close> for an integer: decimal digits, with a minus sign when negative.\<close>

fun str_nat :: "nat \<Rightarrow> string" where
  "str_nat n =
     (if n < 10 then [char_of (48 + n)] else str_nat (n div 10) @ [char_of (48 + n mod 10)])"

declare str_nat.simps [simp del]

definition str_int :: "int \<Rightarrow> string" where
  "str_int i = (if i < 0 then CHR ''-'' # str_nat (nat (- i)) else str_nat (nat i))"

section \<open>The driver\<close>

subsection \<open>Resolving the run: lines 27 to 64\<close>

definition terminal_statuses :: "string list" where
  "terminal_statuses = [''completed'', ''failed'', ''timed_out'', ''terminated'', ''canceled'']"

text \<open>
  Lines 27 to 45: the two nested \<^verbatim>\<open>try\<close> blocks. The result is the local variable
  \<^verbatim>\<open>handle\<close> (\<open>None\<close> as long as it is unassigned) and the flag \<^verbatim>\<open>start_new\<close>.
\<close>

definition lookup_existing ::
  "'w engine \<Rightarrow> string \<Rightarrow> 'w dstate \<Rightarrow> (handle option \<times> bool) \<times> 'w dstate" where
  "lookup_existing eng workflow_id s =
     (case call_get_workflow_handle eng workflow_id s of
        (Inl e, s1) \<Rightarrow> ((None, True), print Msg_workflow_not_found s1)
      | (Inr h, s1) \<Rightarrow>
          (case call_query eng h (print Msg_checking_if_running s1) of
             (Inl e, s2) \<Rightarrow> ((Some h, True), print Msg_could_not_query s2)
           | (Inr None, s2) \<Rightarrow> ((Some h, True), print Msg_existing_not_running s2)
           | (Inr (Some st), s2) \<Rightarrow>
               if status st \<notin> set terminal_statuses
               then ((Some h, False), print Msg_found_existing s2)
               else ((Some h, True), print Msg_existing_not_running s2)))"

text \<open>
  Lines 48 to 61: the new run is started under the id suffixed with the clock reading; a
  failure to start is printed and raised again.
\<close>

definition start_new_workflow ::
  "'w engine \<Rightarrow> string \<Rightarrow> 'w dstate \<Rightarrow> (exn + handle) \<times> 'w dstate" where
  "start_new_workflow eng workflow_id s =
     (case call_time eng s of
        (t, s1) \<Rightarrow>
          (let unique_id = workflow_id @ ''-'' @ str_int t in
           case call_start_workflow eng (None, False) unique_id ''openai-agents-task-queue''
                  (print (Msg_starting_new_workflow unique_id) s1) of
             (Inl start_error, s2) \<Rightarrow>
               (Inl start_error, print (Msg_failed_to_start start_error) s2)
           | (Inr h, s2) \<Rightarrow> (Inr h, s2)))"

text \<open>
  Lines 27 to 64: the lookup, the start \<^verbatim>\<open>if start_new\<close>, and the check
  \<^verbatim>\<open>if not handle\<close>.
\<close>

definition resolve_or_start ::
  "'w engine \<Rightarrow> string \<Rightarrow> 'w dstate \<Rightarrow> (exn + handle) \<times> 'w dstate" where
  "resolve_or_start eng workflow_id s =
     (case lookup_existing eng workflow_id s of
        ((handle0, start_new), s1) \<Rightarrow>
          (case (if start_new
                 then (case start_new_workflow eng workflow_id s1 of
                         (Inl e, s2) \<Rightarrow> (Inl e, s2)
                       | (Inr h, s2) \<Rightarrow> (Inr (Some h), s2))
                 else (Inr handle0, s1)) of
             (Inl e, s2) \<Rightarrow> (Inl e, s2)
           | (Inr None, s2) \<Rightarrow> (Inl (RuntimeError ''Failed to get workflow handle''), s2)
           | (Inr (Some h), s2) \<Rightarrow> (Inr h, s2)))"

subsection \<open>Submitting the query: lines 66 to 72\<close>

definition ensure_started ::
  "'w engine \<Rightarrow> handle \<Rightarrow> string \<Rightarrow> 'w dstate \<Rightarrow> (exn + unit) \<times> 'w dstate" where
  "ensure_started eng h query s =
     (case call_query eng h s of
        (Inl e, s1) \<Rightarrow> (Inl e, s1)
      | (Inr current_status, s1) \<Rightarrow>
          if (case current_status of None \<Rightarrow> True | Some st \<Rightarrow> status st = ''pending'')
          then (case call_update_start_research eng h query (print (Msg_initiating_research query) s1) of
                  (Inl e, s2) \<Rightarrow> (Inl e, s2)
                | (Inr u, s2) \<Rightarrow> (Inr (), s2))
          else (Inr (), s1))"

subsection \<open>The interactive loop: lines 75 to 142\<close>

text \<open>How a piece of the loop body ends: it falls through, breaks, returns, or raises.\<close>

datatype flow = Continue | Break | Return | Raise exn

definition exit_words :: "string list" where
  "exit_words = [''exit'', ''quit'', ''end'', ''done'']"

text \<open>
  Lines 90 to 110, one pass of the inner \<^verbatim>\<open>while\<close> over the questions, condition
  included. \<open>snapshot\<close> is the local variable \<^verbatim>\<open>status\<close>: after an update it is whatever
  the update returned, and calling a method on \<^verbatim>\<open>None\<close> raises. The pass either ends the
  loop (\<open>Inl\<close>: \<open>Continue\<close> when the condition is false, \<open>Return\<close> on an exit word,
  \<open>Raise\<close> on an exception) or hands the next value of \<^verbatim>\<open>status\<close> to the next pass
  (\<open>Inr\<close>).
\<close>

definition qa_step ::
  "'w engine \<Rightarrow> handle \<Rightarrow> ResearchInteraction option \<Rightarrow> 'w dstate
     \<Rightarrow> (flow + ResearchInteraction option) \<times> 'w dstate" where
  "qa_step eng h snapshot s =
     (case snapshot of
        None \<Rightarrow> (Inl (Raise (AttributeError ''get_current_question'')), s)
      | Some st \<Rightarrow>
          (case get_current_question st of
             None \<Rightarrow> (Inl Continue, s)
           | Some current_question \<Rightarrow>
               (case current_question_index st of
                  None \<Rightarrow> (Inl (Raise (TypeError ''current_question_index + 1'')), s)
                | Some i \<Rightarrow>
                    (case call_input eng
                            (print (Msg_question current_question)
                              (print (Msg_question_of (i + 1)
                                 (length (case clarification_questions st of
                                            None \<Rightarrow> [] | Some qs \<Rightarrow> qs))) s)) of
                       (Inl e, s1) \<Rightarrow> (Inl (Raise e), s1)
                     | (Inr line, s1) \<Rightarrow>
                         (let answer = strip line in
                          if lower answer \<in> set exit_words
                          then (case call_signal eng h (print Msg_ending_session s1) of
                                  (Inl e, s2) \<Rightarrow> (Inl (Raise e), s2)
                                | (Inr u, s2) \<Rightarrow> (Inl Return, s2))
                          else (case call_update_provide_single_clarification eng h
                                       \<lparr>question_index = i,
                                        answer = (if answer = [] then ''No specific preference''
                                                  else answer)\<rparr> s1 of
                                  (Inl e, s2) \<Rightarrow> (Inl (Raise e), s2)
                                | (Inr snapshot', s2) \<Rightarrow> (Inr snapshot', s2)))))))"

text \<open>
  The inner loop. It has no bound in the source; here each pass takes one unit of fuel and
  \<open>None\<close> says that the fuel ran out.
\<close>

fun qa_loop ::
  "nat \<Rightarrow> 'w engine \<Rightarrow> handle \<Rightarrow> ResearchInteraction option \<Rightarrow> 'w dstate
     \<Rightarrow> flow option \<times> 'w dstate" where
  "qa_loop 0 eng h snapshot s = (None, s)"
| "qa_loop (Suc n) eng h snapshot s =
     (case qa_step eng h snapshot s of
        (Inl f, s1) \<Rightarrow> (Some f, s1)
      | (Inr snapshot', s1) \<Rightarrow> qa_loop n eng h snapshot' s1)"

text \<open>Lines 77 to 133, the body of the \<^verbatim>\<open>try\<close>.\<close>

definition loop_body ::
  "nat \<Rightarrow> 'w engine \<Rightarrow> handle \<Rightarrow> 'w dstate \<Rightarrow> flow option \<times> 'w dstate" where
  "loop_body fuel eng h s =
     (case call_query eng h s of
        (Inl e, s1) \<Rightarrow> (Some (Raise e), s1)
      | (Inr None, s1) \<Rightarrow> (Some Continue, call_sleep eng 1 s1)
      | (Inr (Some st), s1) \<Rightarrow>
          if status st \<in> set [''awaiting_clarifications'', ''collecting_answers'']
          then qa_loop fuel eng h (Some st)
                 (print Msg_rule (print Msg_need_clarifying_questions s1))
          else if status st = ''researching''
          then (Some Break,
                print Msg_please_wait
                  (print Msg_compiling_report
                    (print Msg_gathering_information
                      (print Msg_planning_searches
                        (print Msg_research_in_progress s1)))))
          else if status st = ''completed''
          then (Some Break, s1)
          else if status st = ''pending''
          then (Some Continue, call_sleep eng 2 (print Msg_starting_research s1))
          else (Some Continue, call_sleep eng 2 (print (Msg_unexpected_status (status st)) s1)))"

text \<open>Lines 135 to 142, the \<^verbatim>\<open>except Exception as e\<close> clause.\<close>

definition except_handler ::
  "'w engine \<Rightarrow> handle \<Rightarrow> exn \<Rightarrow> 'w dstate \<Rightarrow> flow \<times> 'w dstate" where
  "except_handler eng h e s =
     (case call_describe eng h (print (Msg_error_during_interaction e) s) of
        (Inl e', s1) \<Rightarrow> (Raise e', s1)
      | (Inr desc_status, s1) \<Rightarrow>
          if desc_status \<notin> set [''RUNNING'', ''CONTINUED_AS_NEW'']
          then (Return, print (Msg_workflow_terminated desc_status) s1)
          else (Continue, call_sleep eng 2 s1))"

text \<open>
  How the \<^verbatim>\<open>while True\<close> loop is left. One iteration takes one unit of fuel, and the
  inner loop it runs gets what is left.
\<close>

datatype loop_exit = Broke | Returned | Raised exn

fun interactive_loop ::
  "nat \<Rightarrow> 'w engine \<Rightarrow> handle \<Rightarrow> 'w dstate \<Rightarrow> loop_exit option \<times> 'w dstate" where
  "interactive_loop 0 eng h s = (None, s)"
| "interactive_loop (Suc n) eng h s =
     (case loop_body n eng h s of
        (None, s1) \<Rightarrow> (None, s1)
      | (Some Continue, s1) \<Rightarrow> interactive_loop n eng h s1
      | (Some Break, s1) \<Rightarrow> (Some Broke, s1)
      | (Some Return, s1) \<Rightarrow> (Some Returned, s1)
      | (Some (Raise e), s1) \<Rightarrow>
          (case except_handler eng h e s1 of
             (Continue, s2) \<Rightarrow> interactive_loop n eng h s2
           | (Break, s2) \<Rightarrow> (Some Broke, s2)
           | (Return, s2) \<Rightarrow> (Some Returned, s2)
           | (Raise e', s2) \<Rightarrow> (Some (Raised e'), s2)))"

subsection \<open>Waiting for the result: lines 146 to 153\<close>

definition await_final_result ::
  "'w engine \<Rightarrow> handle \<Rightarrow> 'w dstate \<Rightarrow> (exn + string option) \<times> 'w dstate" where
  "await_final_result eng h s =
     (case call_result eng h s of
        (Inl e, s1) \<Rightarrow> (Inl e, s1)
      | (Inr r, s1) \<Rightarrow>
          (Inr (Some r),
           print (Msg_research_result r)
             (print Msg_double_rule
               (print Msg_research_result_header
                 (print Msg_research_completed s1)))))"

subsection \<open>The whole function\<close>

text \<open>
  The value is \<open>None\<close> when the fuel ran out, \<open>Some (Inl e)\<close> when the function raises \<open>e\<close>,
  \<open>Some (Inr None)\<close> for a bare \<^verbatim>\<open>return\<close> and \<open>Some (Inr (Some r))\<close> for
  \<^verbatim>\<open>return result\<close>.
\<close>

definition run_interactive_research_with_clarifications ::
  "nat \<Rightarrow> 'w engine \<Rightarrow> string \<Rightarrow> string \<Rightarrow> 'w dstate
     \<Rightarrow> (exn + string option) option \<times> 'w dstate" where
  "run_interactive_research_with_clarifications fuel client query workflow_id s =
     (case resolve_or_start client workflow_id
             (print (Msg_starting_interactive_research query) s) of
        (Inl e, s1) \<Rightarrow> (Some (Inl e), s1)
      | (Inr h, s1) \<Rightarrow>
          (case ensure_started client h query s1 of
             (Inl e, s2) \<Rightarrow> (Some (Inl e), s2)
           | (Inr u, s2) \<Rightarrow>
               (case interactive_loop fuel client h s2 of
                  (None, s3) \<Rightarrow> (None, s3)
                | (Some (Raised e), s3) \<Rightarrow> (Some (Inl e), s3)
                | (Some Returned, s3) \<Rightarrow> (Some (Inr None), s3)
                | (Some Broke, s3) \<Rightarrow>
                    (case await_final_result client h s3 of
                       (r, s4) \<Rightarrow> (Some r, s4)))))"

text \<open>Lines 157 to 159: the legacy entry point awaits the new one and returns its value.\<close>

definition run_interactive_research ::
  "nat \<Rightarrow> 'w engine \<Rightarrow> string \<Rightarrow> string \<Rightarrow> 'w dstate
     \<Rightarrow> (exn + string option) option \<times> 'w dstate" where
  "run_interactive_research fuel client query workflow_id s =
     run_interactive_research_with_clarifications fuel client query workflow_id s"

subsection \<open>Parsing the clarify arguments: lines 198 to 205\<close>

text \<open>
  \<^verbatim>\<open>arg.split("=", 1)\<close> on a string that contains the separator: the text before the first
  separator and the text after it.
\<close>

definition split_once :: "string \<Rightarrow> string \<times> string" where
  "split_once arg =
     (takeWhile (\<lambda>c. c \<noteq> CHR ''='') arg, tl (dropWhile (\<lambda>c. c \<noteq> CHR ''='') arg))"

fun parse_loop :: "string list \<Rightarrow> (string \<rightharpoonup> string) \<Rightarrow> (string \<rightharpoonup> string)" where
  "parse_loop [] responses = responses"
| "parse_loop (arg # args) responses =
     (if CHR ''='' \<in> set arg
      then (case split_once arg of (key, val) \<Rightarrow> parse_loop args (responses(key \<mapsto> val)))
      else parse_loop args responses)"

definition parse_clarifications :: "string list \<Rightarrow> (string \<rightharpoonup> string)" where
  "parse_clarifications clarification_args = parse_loop clarification_args Map.empty"

section \<open>Reading a trace\<close>

text \<open>The ids under which a trace starts runs, and the queries it submits.\<close>

fun started_id :: "event \<Rightarrow> string list" where
  "started_id (Start_workflow args wid queue r) = [wid]"
| "started_id _ = []"

definition start_calls :: "event list \<Rightarrow> string list" where
  "start_calls tr = concat (map started_id tr)"

fun submitted_query :: "event \<Rightarrow> string list" where
  "submitted_query (Update_start_research h q r) = [q]"
| "submitted_query _ = []"

definition start_research_calls :: "event list \<Rightarrow> string list" where
  "start_research_calls tr = concat (map submitted_query tr)"

text \<open>
  An exit word read from the terminal. The check \<open>exits_ok h fin\<close> walks a trace: right
  after each exit word come the farewell message and one signal to \<open>h\<close>; when that signal
  returned normally nothing follows it and \<open>fin\<close> holds; when it raised, the walk goes on
  behind it.
\<close>

fun is_exit_line :: "event \<Rightarrow> bool" where
  "is_exit_line (Input (Inr line)) = (lower (strip line) \<in> set exit_words)"
| "is_exit_line _ = False"

fun exits_ok :: "handle \<Rightarrow> bool \<Rightarrow> event list \<Rightarrow> bool" where
  "exits_ok h fin [] = True"
| "exits_ok h fin (e # rest) =
     (if is_exit_line e
      then (case rest of
              e1 # Signal_end_workflow h' (Inr u) # rest' \<Rightarrow>
                e1 = Print Msg_ending_session \<and> h' = h \<and> rest' = [] \<and> fin
            | e1 # Signal_end_workflow h' (Inl x) # rest' \<Rightarrow>
                e1 = Print Msg_ending_session \<and> h' = h \<and> exits_ok h fin rest'
            | _ \<Rightarrow> False)
      else exits_ok h fin rest)"

text \<open>
  An answer submission is in order when the three events before it (\<open>before\<close> holds the
  earlier events, the latest first) are the position line of a question, one more event
  (the question text), and a line read from the terminal; the submitted index is the one
  shown (the position line shows the index plus one), and the submitted answer is the
  stripped line, or the sentinel when the stripped line is empty. \<open>submissions_ok\<close> checks
  every submission of a trace.
\<close>

fun input_line :: "event \<Rightarrow> string option" where
  "input_line (Input (Inr line)) = Some line"
| "input_line _ = None"

fun shown_index :: "event \<Rightarrow> int option" where
  "shown_index (Print (Msg_question_of k cnt)) = Some (k - 1)"
| "shown_index _ = None"

definition submission_ok :: "event list \<Rightarrow> SingleClarificationInput \<Rightarrow> bool" where
  "submission_ok before p =
     (case before of
        e3 # e2 # e1 # earlier \<Rightarrow>
          (case (shown_index e1, input_line e3) of
             (Some i, Some line) \<Rightarrow>
               question_index p = i \<and> answer p \<noteq> [] \<and>
               answer p = (if strip line = [] then ''No specific preference'' else strip line)
           | _ \<Rightarrow> False)
      | _ \<Rightarrow> False)"

fun submissions_ok :: "event list \<Rightarrow> event list \<Rightarrow> bool" where
  "submissions_ok before [] = True"
| "submissions_ok before (Update_provide_single_clarification h p r # rest) =
     (submission_ok before p \<and>
      submissions_ok (Update_provide_single_clarification h p r # before) rest)"
| "submissions_ok before (e # rest) = submissions_ok (e # before) rest"

text \<open>
  A query or an update that raised. The check \<open>handled_ok h r\<close> walks the events of the
  polling loop, left as \<open>r\<close>: right after each raised query or update come the message with
  its exception and one call of describe on \<open>h\<close>. When describe raises, that is the last
  event and the loop raises what describe raised. When the coarse status is neither RUNNING
  nor CONTINUED_AS_NEW, the only event left is the message with the status, and the loop
  is left by a return. Otherwise a sleep of two time units follows, and behind it the
  events go on with a status query, or end there.
\<close>

fun raised :: "event \<Rightarrow> exn option" where
  "raised (Query_get_status h (Inl e)) = Some e"
| "raised (Update_provide_single_clarification h p (Inl e)) = Some e"
| "raised _ = None"

fun is_query :: "event \<Rightarrow> bool" where
  "is_query (Query_get_status h r) = True"
| "is_query _ = False"

definition starts_with_query :: "event list \<Rightarrow> bool" where
  "starts_with_query tr = (case tr of [] \<Rightarrow> True | e # rest \<Rightarrow> is_query e)"

fun handled_ok :: "handle \<Rightarrow> loop_exit option \<Rightarrow> event list \<Rightarrow> bool" where
  "handled_ok h r [] = True"
| "handled_ok h r (ev # rest) =
     (case raised ev of
        None \<Rightarrow> handled_ok h r rest
      | Some e \<Rightarrow>
          (case rest of
             e1 # Describe h' (Inr d) # rest' \<Rightarrow>
               e1 = Print (Msg_error_during_interaction e) \<and> h' = h \<and>
               (if d \<notin> set [''RUNNING'', ''CONTINUED_AS_NEW'']
                then rest' = [Print (Msg_workflow_terminated d)] \<and> r = Some Returned
                else (case rest' of
                        e2 # rest'' \<Rightarrow>
                          e2 = Sleep 2 \<and> starts_with_query rest'' \<and> handled_ok h r rest''
                      | [] \<Rightarrow> False))
           | e1 # Describe h' (Inl e') # rest' \<Rightarrow>
               e1 = Print (Msg_error_during_interaction e) \<and> h' = h \<and> rest' = [] \<and>
               r = Some (Raised e')
           | _ \<Rightarrow> False))"

definition clean :: "event list \<Rightarrow> bool" where
  "clean tr = (\<forall>ev \<in> set tr. raised ev = None)"

text \<open>
  The events of one loop body that ends as \<open>b\<close>: no query or update raised, or one did,
  it is the last event, and the body ends by raising its exception.
\<close>

fun body_events :: "flow option \<Rightarrow> event list \<Rightarrow> bool" where
  "body_events b [] = True"
| "body_events b [ev] = (case raised ev of None \<Rightarrow> True | Some e \<Rightarrow> b = Some (Raise e))"
| "body_events b (ev # rest) = (raised ev = None \<and> body_events b rest)"

section \<open>An engine for examples\<close>

text \<open>
  An in-memory engine: the status queries, the terminal lines and the answer updates are
  served from scripts, in order; when the query script is empty the query returns
  \<open>idle\<close>, and an empty script of lines or updates raises. The other calls have one fixed
  response each.
\<close>

record fake_world =
  pending_queries :: "(exn + ResearchInteraction option) list"
  pending_lines :: "(exn + string) list"
  pending_updates :: "(exn + ResearchInteraction option) list"

definition fake_engine ::
  "(exn + handle) \<Rightarrow> (exn + handle) \<Rightarrow> (exn + ResearchInteraction option) \<Rightarrow> (exn + unit)
     \<Rightarrow> (exn + string) \<Rightarrow> (exn + string) \<Rightarrow> int \<Rightarrow> fake_world engine" where
  "fake_engine looked_up started idle signalled described final clock =
     \<lparr>get_workflow_handle = (\<lambda>wid w. (looked_up, w)),
      start_workflow = (\<lambda>args wid queue w. (started, w)),
      query_get_status = (\<lambda>h w. case pending_queries w of
                                   [] \<Rightarrow> (idle, w)
                                 | r # rs \<Rightarrow> (r, w\<lparr>pending_queries := rs\<rparr>)),
      update_start_research = (\<lambda>h q w. (Inr (), w)),
      update_provide_single_clarification = (\<lambda>h p w. case pending_updates w of
                                   [] \<Rightarrow> (Inl (Exception ''no update scripted''), w)
                                 | r # rs \<Rightarrow> (r, w\<lparr>pending_updates := rs\<rparr>)),
      signal_end_workflow = (\<lambda>h w. (signalled, w)),
      describe = (\<lambda>h w. (described, w)),
      result = (\<lambda>h w. (final, w)),
      time_time = (\<lambda>w. (clock, w)),
      input = (\<lambda>w. case pending_lines w of
                      [] \<Rightarrow> (Inl (Exception ''EOF when reading a line''), w)
                    | r # rs \<Rightarrow> (r, w\<lparr>pending_lines := rs\<rparr>)),
      sleep = (\<lambda>d w. w)\<rparr>"

definition snapshot :: "string \<Rightarrow> string list \<Rightarrow> int \<Rightarrow> ResearchInteraction" where
  "snapshot st qs i =
     \<lparr>status = st, clarification_questions = Some qs, current_question_index = Some i,
      final_result = None\<rparr>"

definition script ::
  "(exn + ResearchInteraction option) list \<Rightarrow> (exn + string) list
     \<Rightarrow> (exn + ResearchInteraction option) list \<Rightarrow> fake_world dstate" where
  "script qs ls us =
     \<lparr>world = \<lparr>pending_queries = qs, pending_lines = ls, pending_updates = us\<rparr>, trace = []\<rparr>"


text \<open>The engines and scripts of the examples below.\<close>

definition research :: handle where
  "research = WorkflowHandle ''research''"

definition two_questions :: "string list" where
  "two_questions = [''Budget?'', ''Dates?'']"

text \<open>The run exists; queries beyond the script return no snapshot.\<close>

definition quiet_engine :: "fake_world engine" where
  "quiet_engine =
     fake_engine (Inr research) (Inr (WorkflowHandle ''research-42'')) (Inr None) (Inr ())
       (Inr ''RUNNING'') (Inr ''report'') 42"

text \<open>The run exists and is researching whenever it is asked.\<close>

definition researching_engine :: "fake_world engine" where
  "researching_engine =
     fake_engine (Inr research) (Inr (WorkflowHandle ''research-42''))
       (Inr (Some (snapshot ''researching'' [] 0))) (Inr ())
       (Inr ''RUNNING'') (Inr ''report'') 42"

text \<open>The signal raises while the engine reports the run as running.\<close>

definition deaf_engine :: "fake_world engine" where
  "deaf_engine =
     fake_engine (Inr research) (Inr (WorkflowHandle ''research-42'')) (Inr None)
       (Inl (Exception ''signal failed'')) (Inr ''RUNNING'') (Inr ''report'') 42"

text \<open>The engine reports the run as failed.\<close>

definition failed_engine :: "fake_world engine" where
  "failed_engine =
     fake_engine (Inr research) (Inr (WorkflowHandle ''research-42'')) (Inr None) (Inr ())
       (Inr ''FAILED'') (Inl (Exception ''workflow failed'')) 42"

text \<open>The run exists and reads failed whenever it is asked.\<close>

definition stuck_engine :: "fake_world engine" where
  "stuck_engine =
     fake_engine (Inr research) (Inr (WorkflowHandle ''research-42''))
       (Inr (Some (snapshot ''failed'' [] 0))) (Inr ())
       (Inr ''RUNNING'') (Inr ''report'') 42"

text \<open>No run is found and none can be started.\<close>

definition down_engine :: "fake_world engine" where
  "down_engine =
     fake_engine (Inl (Exception ''not found'')) (Inl (Exception ''unavailable'')) (Inr None)
       (Inr ()) (Inr ''RUNNING'') (Inr ''report'') 42"

section \<open>Properties\<close>

lemmas call_defs = call_get_workflow_handle_def call_start_workflow_def call_query_def
  call_update_start_research_def call_update_provide_single_clarification_def call_signal_def
  call_describe_def call_result_def call_time_def call_input_def call_sleep_def print_def

lemmas example_defs = fake_engine_def script_def snapshot_def research_def two_questions_def
  quiet_engine_def researching_engine_def deaf_engine_def failed_engine_def stuck_engine_def
  down_engine_def

subsection \<open>The polling loop, one iteration at a time\<close>

lemma absent_snapshot_step:
  assumes "query_get_status eng h (world s) = (Inr None, w)"
  shows "loop_body n eng h s =
           (Some Continue,
            \<lparr>world = sleep eng 1 w, trace = trace s @ [Query_get_status h (Inr None), Sleep 1]\<rparr>)"
    and "interactive_loop (Suc n) eng h s =
           interactive_loop n eng h
             \<lparr>world = sleep eng 1 w, trace = trace s @ [Query_get_status h (Inr None), Sleep 1]\<rparr>"
  using assms by (simp_all add: loop_body_def call_defs)

lemma absent_snapshots_never_exit:
  assumes inv: "\<forall>w. P w \<longrightarrow> (\<exists>w'. query_get_status eng h w = (Inr None, w') \<and> P (sleep eng 1 w'))"
  shows "P (world s) \<Longrightarrow>
     fst (interactive_loop k eng h s) = None \<and>
     trace (snd (interactive_loop k eng h s)) =
       trace s @ concat (replicate k [Query_get_status h (Inr None), Sleep 1])"
proof (induction k arbitrary: s)
  case 0
  show ?case by simp
next
  case (Suc k)
  from inv Suc.prems obtain w' where
    q: "query_get_status eng h (world s) = (Inr None, w')" and p: "P (sleep eng 1 w')" by blast
  let ?s1 = "\<lparr>world = sleep eng 1 w', trace = trace s @ [Query_get_status h (Inr None), Sleep 1]\<rparr>"
  from p have "P (world ?s1)" by simp
  from Suc.IH [OF this] absent_snapshot_step(2) [OF q, of k] show ?case by simp
qed

text \<open>
  C10. When the status query of an iteration returns no snapshot, the iteration sleeps one
  time unit and the loop goes on from there: the body falls through without raising, so
  the handler and its coarse-status check are not reached. As long as the snapshots stay
  absent (\<open>P\<close> holds of the worlds where they do) the loop is not left, whatever the number
  of iterations, and its events are the queries and the sleeps.
\<close>

theorem absent_snapshot_sleeps_and_repolls:
  "(\<forall>w. query_get_status eng h (world s) = (Inr None, w) \<longrightarrow>
      loop_body n eng h s =
        (Some Continue,
         \<lparr>world = sleep eng 1 w, trace = trace s @ [Query_get_status h (Inr None), Sleep 1]\<rparr>)
      \<and> interactive_loop (Suc n) eng h s =
        interactive_loop n eng h
          \<lparr>world = sleep eng 1 w, trace = trace s @ [Query_get_status h (Inr None), Sleep 1]\<rparr>)
   \<and> ((\<forall>w. P w \<longrightarrow> (\<exists>w'. query_get_status eng h w = (Inr None, w') \<and> P (sleep eng 1 w')))
        \<and> P (world s) \<longrightarrow>
      fst (interactive_loop k eng h s) = None \<and>
      trace (snd (interactive_loop k eng h s)) =
        trace s @ concat (replicate k [Query_get_status h (Inr None), Sleep 1]))"
  using absent_snapshot_step [of eng h s] absent_snapshots_never_exit [of P eng h s k]
  by blast

theorem absent_snapshot_sleeps_and_repolls_witness:
  "query_get_status quiet_engine research (world (script [] [] [])) =
     (Inr None, world (script [] [] []))
   \<and> loop_body 0 quiet_engine research (script [] [] []) =
       (Some Continue,
        \<lparr>world = world (script [] [] []),
         trace = [Query_get_status research (Inr None), Sleep 1]\<rparr>)
   \<and> interactive_loop 3 quiet_engine research (script [] [] []) =
       (None, \<lparr>world = world (script [] [] []),
               trace = [Query_get_status research (Inr None), Sleep 1,
                        Query_get_status research (Inr None), Sleep 1,
                        Query_get_status research (Inr None), Sleep 1]\<rparr>)"
proof -
  let ?P = "\<lambda>w. pending_queries w = []"
  have q: "query_get_status quiet_engine research (world (script [] [] [])) =
     (Inr None, world (script [] [] []))"
    by (simp add: example_defs)
  have inv: "\<forall>w. ?P w \<longrightarrow>
      (\<exists>w'. query_get_status quiet_engine research w = (Inr None, w') \<and> ?P (sleep quiet_engine 1 w'))"
    by (simp add: example_defs)
  have p: "?P (world (script [] [] []))"
    by (simp add: example_defs)
  note t = absent_snapshot_sleeps_and_repolls [of quiet_engine research "script [] [] []" 0 ?P 3]
  from t q have 1: "loop_body 0 quiet_engine research (script [] [] []) =
       (Some Continue,
        \<lparr>world = sleep quiet_engine 1 (world (script [] [] [])),
         trace = trace (script [] [] []) @ [Query_get_status research (Inr None), Sleep 1]\<rparr>)"
    by blast
  from t inv p have 2: "fst (interactive_loop 3 quiet_engine research (script [] [] [])) = None \<and>
      trace (snd (interactive_loop 3 quiet_engine research (script [] [] []))) =
        trace (script [] [] []) @ concat (replicate 3 [Query_get_status research (Inr None), Sleep 1])"
    by blast
  have 3: "world (snd (interactive_loop 3 quiet_engine research (script [] [] []))) = world (script [] [] [])"
    by (simp add: eval_nat_numeral loop_body_def call_defs example_defs)
  have 4: "interactive_loop 3 quiet_engine research (script [] [] []) =
       (None, \<lparr>world = world (script [] [] []),
               trace = [Query_get_status research (Inr None), Sleep 1,
                        Query_get_status research (Inr None), Sleep 1,
                        Query_get_status research (Inr None), Sleep 1]\<rparr>)"
    using 2 3 by (cases "interactive_loop 3 quiet_engine research (script [] [] [])")
      (simp add: eval_nat_numeral script_def)
  from 1 have 5: "loop_body 0 quiet_engine research (script [] [] []) =
       (Some Continue,
        \<lparr>world = world (script [] [] []),
         trace = [Query_get_status research (Inr None), Sleep 1]\<rparr>)"
    by (simp add: example_defs)
  from q 5 4 show ?thesis by blast
qed






subsection \<open>Exceptions in the polling loop\<close>

text \<open>
  One iteration whose body raises \<open>e\<close>: the driver prints it and asks the engine to describe
  the run; a coarse status that is not a running one is printed and the loop is left by a
  return; otherwise the driver sleeps two time units and the loop goes on.
\<close>

lemma raised_body_checks_coarse_status:
  assumes "loop_body n eng h s = (Some (Raise e), s1)"
    and "describe eng h (world s1) = (Inr d, w)"
  shows "interactive_loop (Suc n) eng h s =
     (if d \<notin> set [''RUNNING'', ''CONTINUED_AS_NEW'']
      then (Some Returned,
            \<lparr>world = w,
             trace = trace s1 @ [Print (Msg_error_during_interaction e), Describe h (Inr d),
                                 Print (Msg_workflow_terminated d)]\<rparr>)
      else interactive_loop n eng h
            \<lparr>world = sleep eng 2 w,
             trace = trace s1 @ [Print (Msg_error_during_interaction e), Describe h (Inr d),
                                 Sleep 2]\<rparr>)"
  using assms by (simp add: except_handler_def call_defs)

text \<open>A query that raises, and an update that raises, end the body by raising.\<close>

lemma loop_body_query_raises:
  assumes "query_get_status eng h (world s) = (Inl e, w)"
  shows "loop_body n eng h s =
           (Some (Raise e), \<lparr>world = w, trace = trace s @ [Query_get_status h (Inl e)]\<rparr>)"
  using assms by (simp add: loop_body_def call_defs)

lemma qa_loop_ends:
  "qa_step eng h snap s = (Inl f, s1) \<Longrightarrow> qa_loop (Suc n) eng h snap s = (Some f, s1)"
  by simp

lemma qa_loop_goes_on:
  "qa_step eng h snap s = (Inr snap', s1) \<Longrightarrow>
     qa_loop (Suc n) eng h snap s = qa_loop n eng h snap' s1"
  by simp

lemma qa_step_update_raises:
  assumes "get_current_question st = Some cq"
    and "current_question_index st = Some i"
    and "input eng (world s) = (Inr line, w1)"
    and "lower (strip line) \<notin> set exit_words"
    and "update_provide_single_clarification eng h
           \<lparr>question_index = i,
            answer = (if strip line = [] then ''No specific preference'' else strip line)\<rparr> w1
         = (Inl e, w2)"
  shows "\<exists>s1. qa_step eng h (Some st) s = (Inl (Raise e), s1)"
  using assms by (simp add: qa_step_def call_defs Let_def)


lemma clean_append [simp]: "clean (a @ c) \<longleftrightarrow> clean a \<and> clean c"
  by (auto simp add: clean_def)

lemma clean_Cons [simp]: "clean (ev # c) \<longleftrightarrow> raised ev = None \<and> clean c"
  by (auto simp add: clean_def)

lemma clean_Nil [simp]: "clean []"
  by (simp add: clean_def)



lemma body_events_append: "clean a \<Longrightarrow> body_events b c \<Longrightarrow> body_events b (a @ c)"
proof (induction a)
  case Nil
  then show ?case by simp
next
  case (Cons ev a)
  then have "raised ev = None" "body_events b (a @ c)" by simp_all
  then show ?case by (cases "a @ c") simp_all
qed

lemma body_events_of_clean: "clean a \<Longrightarrow> body_events b a"
  using body_events_append [of a b "[]"] by simp









subsection \<open>Resolving the run\<close>

lemma lookup_existing_start_calls:
  "start_calls (trace (snd (lookup_existing eng wid s))) = start_calls (trace s)"
  by (simp add: lookup_existing_def call_defs start_calls_def
      split: prod.splits sum.splits option.splits)

text \<open>
  C2, as the code has it. When the handle is obtained and the status query returns a
  snapshot whose status is not terminal, the driver returns that handle and starts no run.
  In every other case (the handle lookup raises, the query raises, the query returns no
  snapshot, or the status is terminal) it starts exactly one run, under the original id
  suffixed with a hyphen and the clock reading.
\<close>

theorem resolve_or_start_reuses_or_starts:
  "(\<forall>e w1. get_workflow_handle eng wid (world s) = (Inl e, w1) \<longrightarrow>
       start_calls (trace (snd (resolve_or_start eng wid s))) =
         start_calls (trace s) @ [wid @ ''-'' @ str_int (fst (time_time eng w1))])
   \<and> (\<forall>h w1 rq w2.
         get_workflow_handle eng wid (world s) = (Inr h, w1) \<and>
         query_get_status eng h w1 = (rq, w2) \<longrightarrow>
         (case rq of
            Inr (Some st) \<Rightarrow>
              if status st \<notin> set terminal_statuses
              then resolve_or_start eng wid s =
                     (Inr h, \<lparr>world = w2,
                              trace = trace s @ [Get_workflow_handle wid (Inr h),
                                                 Print Msg_checking_if_running,
                                                 Query_get_status h rq,
                                                 Print Msg_found_existing]\<rparr>)
                   \<and> start_calls (trace (snd (resolve_or_start eng wid s))) = start_calls (trace s)
              else start_calls (trace (snd (resolve_or_start eng wid s))) =
                     start_calls (trace s) @ [wid @ ''-'' @ str_int (fst (time_time eng w2))]
          | _ \<Rightarrow> start_calls (trace (snd (resolve_or_start eng wid s))) =
                     start_calls (trace s) @ [wid @ ''-'' @ str_int (fst (time_time eng w2))]))"
  by (auto simp add: resolve_or_start_def lookup_existing_def start_new_workflow_def Let_def
      call_defs start_calls_def split: prod.splits sum.splits option.splits)

lemma str_42: "str_int 42 = ''42''"
  by code_simp

theorem resolve_or_start_reuses_or_starts_witness:
  "get_workflow_handle quiet_engine ''research''
       (world (script [Inr (Some (snapshot ''collecting_answers'' two_questions 1))] [] []))
     = (Inr research, world (script [Inr (Some (snapshot ''collecting_answers'' two_questions 1))] [] []))
   \<and> query_get_status quiet_engine research
       (world (script [Inr (Some (snapshot ''collecting_answers'' two_questions 1))] [] []))
     = (Inr (Some (snapshot ''collecting_answers'' two_questions 1)), world (script [] [] []))
   \<and> resolve_or_start quiet_engine ''research''
       (script [Inr (Some (snapshot ''collecting_answers'' two_questions 1))] [] [])
     = (Inr research,
        \<lparr>world = world (script [] [] []),
         trace = [Get_workflow_handle ''research'' (Inr research),
                  Print Msg_checking_if_running,
                  Query_get_status research
                    (Inr (Some (snapshot ''collecting_answers'' two_questions 1))),
                  Print Msg_found_existing]\<rparr>)
   \<and> get_workflow_handle down_engine ''research'' (world (script [] [] []))
     = (Inl (Exception ''not found''), world (script [] [] []))
   \<and> start_calls (trace (snd (resolve_or_start down_engine ''research'' (script [] [] []))))
     = [''research-42'']"
proof -
  let ?s = "script [Inr (Some (snapshot ''collecting_answers'' two_questions 1))] [] []"
  have g: "get_workflow_handle quiet_engine ''research'' (world ?s) = (Inr research, world ?s)"
    by (simp add: example_defs)
  have q: "query_get_status quiet_engine research (world ?s)
     = (Inr (Some (snapshot ''collecting_answers'' two_questions 1)), world (script [] [] []))"
    by (simp add: example_defs)
  have n: "status (snapshot ''collecting_answers'' two_questions 1) \<notin> set terminal_statuses"
    by (simp add: terminal_statuses_def example_defs)
  have d: "get_workflow_handle down_engine ''research'' (world (script [] [] []))
     = (Inl (Exception ''not found''), world (script [] [] []))"
    by (simp add: example_defs)
  have t: "fst (time_time down_engine (world (script [] [] []))) = 42"
    by (simp add: example_defs)
  have e: "start_calls (trace (script [] [] [])) = []"
    by (simp add: start_calls_def example_defs)
  from resolve_or_start_reuses_or_starts [of quiet_engine "''research''" ?s] g q n
  have 1: "resolve_or_start quiet_engine ''research'' ?s
     = (Inr research,
        \<lparr>world = world (script [] [] []),
         trace = trace ?s @ [Get_workflow_handle ''research'' (Inr research),
                  Print Msg_checking_if_running,
                  Query_get_status research
                    (Inr (Some (snapshot ''collecting_answers'' two_questions 1))),
                  Print Msg_found_existing]\<rparr>)"
    by simp
  from resolve_or_start_reuses_or_starts [of down_engine "''research''" "script [] [] []"] d
  have 2: "start_calls (trace (snd (resolve_or_start down_engine ''research'' (script [] [] []))))
     = start_calls (trace (script [] [] [])) @ [''research'' @ ''-'' @ str_int (fst (time_time down_engine (world (script [] [] []))))]"
    by simp
  from 2 have 3: "start_calls (trace (snd (resolve_or_start down_engine ''research'' (script [] [] []))))
     = [''research-42'']"
    by (simp add: t e str_42)
  from 1 have 4: "resolve_or_start quiet_engine ''research'' ?s
     = (Inr research,
        \<lparr>world = world (script [] [] []),
         trace = [Get_workflow_handle ''research'' (Inr research),
                  Print Msg_checking_if_running,
                  Query_get_status research
                    (Inr (Some (snapshot ''collecting_answers'' two_questions 1))),
                  Print Msg_found_existing]\<rparr>)"
    by (simp add: script_def)
  from 3 4 g q d show ?thesis
    by simp
qed

text \<open>
  The handle is obtained and the status query succeeds, returning no snapshot: no status is
  terminal, and a new run is started.
\<close>

theorem absent_snapshot_starts_new_run:
  "resolve_or_start quiet_engine ''research'' (script [Inr None] [] [])
   = (Inr (WorkflowHandle ''research-42''),
      \<lparr>world = world (script [] [] []),
       trace = [Get_workflow_handle ''research'' (Inr research),
                Print Msg_checking_if_running,
                Query_get_status research (Inr None),
                Print Msg_existing_not_running,
                Time_time 42,
                Print (Msg_starting_new_workflow ''research-42''),
                Start_workflow (None, False) ''research-42'' ''openai-agents-task-queue''
                  (Inr (WorkflowHandle ''research-42''))]\<rparr>)"
  by (simp add: resolve_or_start_def lookup_existing_def start_new_workflow_def Let_def
      str_42 call_defs example_defs)

text \<open>
  C7. When the lookup asks for a new run and starting it raises \<open>e\<close>, the failure is
  printed and the whole function raises \<open>e\<close> right there: the trace ends with the one
  start attempt and the message, and no second start is made.
\<close>

theorem start_failure_is_raised:
  assumes "lookup_existing eng wid (print (Msg_starting_interactive_research q) s)
             = ((h0, True), s1)"
    and "time_time eng (world s1) = (t, w2)"
    and "start_workflow eng (None, False) (wid @ ''-'' @ str_int t) ''openai-agents-task-queue'' w2
           = (Inl e, w3)"
  shows "run_interactive_research_with_clarifications n eng q wid s =
      (Some (Inl e),
       \<lparr>world = w3,
        trace = trace s1 @
          [Time_time t, Print (Msg_starting_new_workflow (wid @ ''-'' @ str_int t)),
           Start_workflow (None, False) (wid @ ''-'' @ str_int t) ''openai-agents-task-queue''
             (Inl e),
           Print (Msg_failed_to_start e)]\<rparr>)
     \<and> start_calls (trace (snd (run_interactive_research_with_clarifications n eng q wid s)))
         = start_calls (trace s) @ [wid @ ''-'' @ str_int t]"
proof -
  let ?s0 = "print (Msg_starting_interactive_research q) s"
  have r: "resolve_or_start eng wid ?s0 =
      (Inl e, \<lparr>world = w3, trace = trace s1 @
         [Time_time t, Print (Msg_starting_new_workflow (wid @ ''-'' @ str_int t)),
          Start_workflow (None, False) (wid @ ''-'' @ str_int t) ''openai-agents-task-queue''
            (Inl e),
          Print (Msg_failed_to_start e)]\<rparr>)"
    using assms by (simp add: resolve_or_start_def start_new_workflow_def Let_def call_defs)
  have "start_calls (trace s1) = start_calls (trace ?s0)"
    using lookup_existing_start_calls [of eng wid ?s0] assms(1) by simp
  then have "start_calls (trace s1) = start_calls (trace s)"
    by (simp add: print_def start_calls_def)
  with r show ?thesis
    by (simp add: run_interactive_research_with_clarifications_def start_calls_def)
qed

theorem start_failure_is_raised_witness:
  "run_interactive_research_with_clarifications 0 down_engine ''q'' ''research'' (script [] [] [])
   = (Some (Inl (Exception ''unavailable'')),
      \<lparr>world = world (script [] [] []),
       trace = [Print (Msg_starting_interactive_research ''q''),
                Get_workflow_handle ''research'' (Inl (Exception ''not found'')),
                Print Msg_workflow_not_found,
                Time_time 42,
                Print (Msg_starting_new_workflow ''research-42''),
                Start_workflow (None, False) ''research-42'' ''openai-agents-task-queue''
                  (Inl (Exception ''unavailable'')),
                Print (Msg_failed_to_start (Exception ''unavailable''))]\<rparr>)"
proof -
  let ?s1 = "\<lparr>world = world (script [] [] []),
       trace = [Print (Msg_starting_interactive_research ''q''),
                Get_workflow_handle ''research'' (Inl (Exception ''not found'')),
                Print Msg_workflow_not_found]\<rparr>"
  have l: "lookup_existing down_engine ''research''
             (print (Msg_starting_interactive_research ''q'') (script [] [] [])) = ((None, True), ?s1)"
    by (simp add: lookup_existing_def call_defs example_defs)
  have t: "time_time down_engine (world ?s1) = (42, world (script [] [] []))"
    by (simp add: example_defs)
  have st: "start_workflow down_engine (None, False) (''research'' @ ''-'' @ str_int 42)
              ''openai-agents-task-queue'' (world (script [] [] []))
            = (Inl (Exception ''unavailable''), world (script [] [] []))"
    by (simp add: example_defs)
  from start_failure_is_raised [OF l t st, of 0] show ?thesis
    by (simp add: str_42)
qed

subsection \<open>Submitting the query\<close>

text \<open>
  C3. One call of \<open>ensure_started\<close> submits the query exactly when its status query returns
  no snapshot or the status pending, and then once. On a run whose status stays past
  pending (every status query in a world satisfying \<open>P\<close> returns a snapshot that is not
  pending and leads to such a world again), any number of calls submits nothing.
\<close>

theorem ensure_started_submits_once:
  "start_research_calls (trace (snd (ensure_started eng h q s))) =
     start_research_calls (trace s) @
       (case fst (query_get_status eng h (world s)) of
          Inl e \<Rightarrow> []
        | Inr None \<Rightarrow> [q]
        | Inr (Some st) \<Rightarrow> if status st = ''pending'' then [q] else [])
   \<and> ((\<forall>w. P w \<longrightarrow> (\<exists>st w'. query_get_status eng h w = (Inr (Some st), w') \<and>
                              status st \<noteq> ''pending'' \<and> P w'))
        \<and> P (world s) \<longrightarrow>
      start_research_calls (trace (((\<lambda>s. snd (ensure_started eng h q s)) ^^ k) s)) =
        start_research_calls (trace s))"
proof
  show "start_research_calls (trace (snd (ensure_started eng h q s))) =
     start_research_calls (trace s) @
       (case fst (query_get_status eng h (world s)) of
          Inl e \<Rightarrow> []
        | Inr None \<Rightarrow> [q]
        | Inr (Some st) \<Rightarrow> if status st = ''pending'' then [q] else [])"
    by (simp add: ensure_started_def call_defs start_research_calls_def
        split: prod.splits sum.splits option.splits)
next
  show "(\<forall>w. P w \<longrightarrow> (\<exists>st w'. query_get_status eng h w = (Inr (Some st), w') \<and>
                              status st \<noteq> ''pending'' \<and> P w'))
        \<and> P (world s) \<longrightarrow>
      start_research_calls (trace (((\<lambda>s. snd (ensure_started eng h q s)) ^^ k) s)) =
        start_research_calls (trace s)"
  proof
    assume a: "(\<forall>w. P w \<longrightarrow> (\<exists>st w'. query_get_status eng h w = (Inr (Some st), w') \<and>
                              status st \<noteq> ''pending'' \<and> P w')) \<and> P (world s)"
    let ?f = "\<lambda>s. snd (ensure_started eng h q s)"
    have step: "P (world (?f s')) \<and> start_research_calls (trace (?f s')) = start_research_calls (trace s')"
      if "P (world s')" for s'
    proof -
      from a that obtain st w' where
        "query_get_status eng h (world s') = (Inr (Some st), w')" "status st \<noteq> ''pending''" "P w'"
        by blast
      then show ?thesis
        by (simp add: ensure_started_def call_defs start_research_calls_def)
    qed
    have "P (world ((?f ^^ k) s)) \<and>
          start_research_calls (trace ((?f ^^ k) s)) = start_research_calls (trace s)"
    proof (induction k)
      case 0
      from a show ?case by simp
    next
      case (Suc k)
      with step [of "(?f ^^ k) s"] show ?case by simp
    qed
    then show "start_research_calls (trace ((?f ^^ k) s)) = start_research_calls (trace s)"
      by simp
  qed
qed

theorem ensure_started_submits_once_witness:
  "start_research_calls (trace (snd (ensure_started quiet_engine research ''q''
       (script [Inr (Some (snapshot ''pending'' [] 0))] [] [])))) = [''q'']
   \<and> start_research_calls
       (trace (((\<lambda>s. snd (ensure_started researching_engine research ''q'' s)) ^^ 2)
          (script [] [] []))) = []
   \<and> trace (((\<lambda>s. snd (ensure_started researching_engine research ''q'' s)) ^^ 2)
          (script [] [] []))
     = [Query_get_status research (Inr (Some (snapshot ''researching'' [] 0))),
        Query_get_status research (Inr (Some (snapshot ''researching'' [] 0)))]"
proof -
  let ?P = "\<lambda>w. pending_queries w = []"
  have inv: "\<forall>w. ?P w \<longrightarrow> (\<exists>st w'. query_get_status researching_engine research w = (Inr (Some st), w')
                \<and> status st \<noteq> ''pending'' \<and> ?P w')"
    by (simp add: example_defs)
  have p0: "?P (world (script [] [] []))"
    by (simp add: example_defs)
  have e: "start_research_calls (trace (script xs ys zs)) = []" for xs ys zs
    by (simp add: start_research_calls_def example_defs)
  have q1: "fst (query_get_status quiet_engine research
              (world (script [Inr (Some (snapshot ''pending'' [] 0))] [] [])))
            = Inr (Some (snapshot ''pending'' [] 0))"
    by (simp add: example_defs)
  have s1: "status (snapshot ''pending'' [] 0) = ''pending''"
    by (simp add: example_defs)
  from ensure_started_submits_once [of quiet_engine research "''q''"
         "script [Inr (Some (snapshot ''pending'' [] 0))] [] []" ?P 0]
  have 1: "start_research_calls (trace (snd (ensure_started quiet_engine research ''q''
       (script [Inr (Some (snapshot ''pending'' [] 0))] [] [])))) = [''q'']"
    by (simp add: e q1 s1)
  from ensure_started_submits_once [of researching_engine research "''q''" "script [] [] []" ?P 2]
    inv p0
  have 2: "start_research_calls
       (trace (((\<lambda>s. snd (ensure_started researching_engine research ''q'' s)) ^^ 2)
          (script [] [] []))) = []"
    by (simp add: e)
  have 3: "trace (((\<lambda>s. snd (ensure_started researching_engine research ''q'' s)) ^^ 2)
          (script [] [] []))
     = [Query_get_status research (Inr (Some (snapshot ''researching'' [] 0))),
        Query_get_status research (Inr (Some (snapshot ''researching'' [] 0)))]"
    by (simp add: eval_nat_numeral ensure_started_def call_defs example_defs)
  from 1 2 3 show ?thesis by simp
qed

subsection \<open>The legacy entry point\<close>

text \<open>
  C9. For every client, query and workflow id (and every world and fuel) the legacy entry
  point returns what \<open>run_interactive_research_with_clarifications\<close> returns, with the same
  calls made.
\<close>

theorem legacy_entry_point_is_the_new_one:
  "run_interactive_research fuel client query workflow_id s =
     run_interactive_research_with_clarifications fuel client query workflow_id s"
  by (simp add: run_interactive_research_def)

subsection \<open>Exit words\<close>














subsection \<open>Answer submissions\<close>











subsection \<open>Two sessions at the terminal\<close>

lemma str_answers:
  "strip ''1000'' = ''1000''" "lower ''1000'' = ''1000''"
  "strip '' QUIT '' = ''QUIT''" "lower ''QUIT'' = ''quit''"
  "strip ''exit'' = ''exit''" "lower ''exit'' = ''exit''"
  "strip ''   '' = []" "lower [] = []"
  "strip '' March '' = ''March''" "lower ''March'' = ''march''"
  by code_simp+






text \<open>The checks are not idle: each rejects a trace that breaks its rule.\<close>

lemma handled_ok_rejects:
  "\<not> handled_ok research (Some Broke)
       [Query_get_status research (Inl (Exception ''timeout'')),
        Query_get_status research (Inr None)]"
  "\<not> handled_ok research (Some Broke)
       [Query_get_status research (Inl (Exception ''timeout'')),
        Print (Msg_error_during_interaction (Exception ''timeout'')),
        Describe research (Inr ''FAILED''), Sleep 2, Query_get_status research (Inr None)]"
  "\<not> handled_ok research (Some Broke)
       [Query_get_status research (Inl (Exception ''timeout'')),
        Print (Msg_error_during_interaction (Exception ''timeout'')),
        Describe research (Inr ''RUNNING''), Sleep 2, Result research (Inr ''report'')]"
  by (simp_all add: starts_with_query_def)

lemma exits_ok_rejects:
  "\<not> exits_ok research True
       [Input (Inr ''exit''), Print Msg_ending_session, Signal_end_workflow research (Inr ()),
        Query_get_status research (Inr None)]"
  "\<not> exits_ok research True [Input (Inr ''exit''), Query_get_status research (Inr None)]"
  "\<not> exits_ok research False
       [Input (Inr ''exit''), Print Msg_ending_session, Signal_end_workflow research (Inr ())]"
  by (simp_all add: str_answers exit_words_def)

lemma submissions_ok_rejects:
  "\<not> submissions_ok []
       [Print (Msg_question_of 1 2), Print (Msg_question ''Budget?''), Input (Inr ''   ''),
        Update_provide_single_clarification research \<lparr>question_index = 0, answer = []\<rparr> (Inr None)]"
  "\<not> submissions_ok []
       [Print (Msg_question_of 1 2), Print (Msg_question ''Budget?''), Input (Inr ''1000''),
        Update_provide_single_clarification research \<lparr>question_index = 1, answer = ''1000''\<rparr>
          (Inr None)]"
  "\<not> submissions_ok []
       [Update_provide_single_clarification research \<lparr>question_index = 0, answer = ''1000''\<rparr>
          (Inr None)]"
  by (simp_all add: submission_ok_def str_answers)

subsection \<open>Parsing the clarify arguments\<close>

lemma parse_loop_append:
  "parse_loop (args @ [a]) m =
     (if CHR ''='' \<in> set a
      then (parse_loop args m)(fst (split_once a) \<mapsto> snd (split_once a))
      else parse_loop args m)"
  by (induction args arbitrary: m) (auto split: prod.splits)

lemma split_once_joins:
  assumes "CHR ''='' \<in> set arg"
  shows "arg = fst (split_once arg) @ ''='' @ snd (split_once arg)"
    and "CHR ''='' \<notin> set (fst (split_once arg))"
proof -
  let ?p = "\<lambda>c. c \<noteq> CHR ''=''"
  from assms have "dropWhile ?p arg \<noteq> []"
    by (simp add: dropWhile_eq_Nil_conv)
  moreover from this have "hd (dropWhile ?p arg) = CHR ''=''"
    using hd_dropWhile [of ?p arg] by simp
  ultimately have "dropWhile ?p arg = CHR ''='' # tl (dropWhile ?p arg)"
    by (cases "dropWhile ?p arg") auto
  then have "takeWhile ?p arg @ CHR ''='' # tl (dropWhile ?p arg) = arg"
    using takeWhile_dropWhile_id [of ?p arg] by simp
  then show "arg = fst (split_once arg) @ ''='' @ snd (split_once arg)"
    by (simp add: split_once_def)
  show "CHR ''='' \<notin> set (fst (split_once arg))"
    using set_takeWhileD [of "CHR ''=''" ?p arg] by (auto simp add: split_once_def)
qed

lemma parse_loop_last_wins:
  "parse_loop args Map.empty k =
     (case filter (\<lambda>a. CHR ''='' \<in> set a \<and> fst (split_once a) = k) args of
        [] \<Rightarrow> None
      | x # xs \<Rightarrow> Some (snd (split_once (last (x # xs)))))"
proof (induction args rule: rev_induct)
  case Nil
  show ?case by simp
next
  case (snoc a args)
  show ?case
    using snoc.IH by (auto simp add: parse_loop_append split: list.splits)
qed

text \<open>
  C8, as the code has it. The mapping has one entry per key that occurs before the first
  separator of some argument; its value is the text after the first separator of the
  last argument with that key (an earlier argument with the same key is overwritten).
  An argument with the separator is its key, the separator and its value, and the key
  holds no separator. Arguments without the separator add nothing, and there is no error.
\<close>

theorem parse_clarifications_last_wins:
  "(\<forall>k. parse_clarifications args k =
     (case filter (\<lambda>a. CHR ''='' \<in> set a \<and> fst (split_once a) = k) args of
        [] \<Rightarrow> None
      | x # xs \<Rightarrow> Some (snd (split_once (last (x # xs))))))
   \<and> (\<forall>a \<in> set args. CHR ''='' \<in> set a \<longrightarrow>
         a = fst (split_once a) @ ''='' @ snd (split_once a)
         \<and> CHR ''='' \<notin> set (fst (split_once a)))
   \<and> dom (parse_clarifications args) =
       {fst (split_once a) | a. a \<in> set args \<and> CHR ''='' \<in> set a}"
proof -
  have 1: "parse_clarifications args k =
     (case filter (\<lambda>a. CHR ''='' \<in> set a \<and> fst (split_once a) = k) args of
        [] \<Rightarrow> None
      | x # xs \<Rightarrow> Some (snd (split_once (last (x # xs)))))" for k
    by (simp add: parse_clarifications_def parse_loop_last_wins)
  have 3: "dom (parse_clarifications args) =
      {fst (split_once a) | a. a \<in> set args \<and> CHR ''='' \<in> set a}"
  proof (rule set_eqI)
    fix k
    let ?P = "\<lambda>a. CHR ''='' \<in> set a \<and> fst (split_once a) = k"
    have "k \<in> dom (parse_clarifications args) \<longleftrightarrow> filter ?P args \<noteq> []"
      by (simp add: 1 dom_def split: list.splits)
    also have "\<dots> \<longleftrightarrow> (\<exists>a \<in> set args. ?P a)"
      by (simp add: filter_empty_conv)
    also have "\<dots> \<longleftrightarrow> k \<in> {fst (split_once a) | a. a \<in> set args \<and> CHR ''='' \<in> set a}"
      by auto
    finally show "k \<in> dom (parse_clarifications args) \<longleftrightarrow>
        k \<in> {fst (split_once a) | a. a \<in> set args \<and> CHR ''='' \<in> set a}" .
  qed
  from 1 3 split_once_joins show ?thesis by blast
qed

theorem parse_clarifications_last_wins_witness:
  "parse_clarifications [''question_0=a=b'', ''skipped'', ''question_1=March'', ''question_0=Paris'']
     ''question_0'' = Some ''Paris''
   \<and> parse_clarifications [''question_0=a=b'', ''skipped'', ''question_1=March'', ''question_0=Paris'']
     ''question_1'' = Some ''March''
   \<and> parse_clarifications [''question_0=a=b'', ''skipped'', ''question_1=March'', ''question_0=Paris'']
     ''skipped'' = None
   \<and> ''question_0=a=b'' = fst (split_once ''question_0=a=b'') @ ''='' @ snd (split_once ''question_0=a=b'')
   \<and> split_once ''question_0=a=b'' = (''question_0'', ''a=b'')"
proof -
  let ?args = "[''question_0=a=b'', ''skipped'', ''question_1=March'', ''question_0=Paris'']"
  note t = parse_clarifications_last_wins [of ?args]
  from t have a: "\<forall>k. parse_clarifications ?args k =
     (case filter (\<lambda>a. CHR ''='' \<in> set a \<and> fst (split_once a) = k) ?args of
        [] \<Rightarrow> None
      | x # xs \<Rightarrow> Some (snd (split_once (last (x # xs)))))"
    by (rule conjunct1)
  from t have b: "\<forall>a \<in> set ?args. CHR ''='' \<in> set a \<longrightarrow>
         a = fst (split_once a) @ ''='' @ snd (split_once a)
         \<and> CHR ''='' \<notin> set (fst (split_once a))"
    by (rule conjunct2 [THEN conjunct1])
  have 1: "parse_clarifications ?args ''question_0'' = Some ''Paris''"
    by (simp add: a split_once_def)
  have 2: "parse_clarifications ?args ''question_1'' = Some ''March''"
    by (simp add: a split_once_def)
  have 3: "parse_clarifications ?args ''skipped'' = None"
    by (simp add: a split_once_def)
  have m: "''question_0=a=b'' \<in> set ?args" "CHR ''='' \<in> set ''question_0=a=b''"
    by simp_all
  from b m have 4: "''question_0=a=b'' =
      fst (split_once ''question_0=a=b'') @ ''='' @ snd (split_once ''question_0=a=b'')"
    by blast
  have 5: "split_once ''question_0=a=b'' = (''question_0'', ''a=b'')"
    by (simp add: split_once_def)
  from 1 2 3 4 5 show ?thesis by blast
qed

text \<open>
  Two arguments with the separator and the same key leave one entry: the first argument
  has none of its own.
\<close>

theorem duplicate_key_keeps_one_entry:
  "parse_clarifications [''question_0=Paris'', ''question_0=Rome''] ''question_0'' = Some ''Rome''
   \<and> parse_clarifications [''question_0=Paris'', ''question_0=Rome''] ''question_0''
       \<noteq> Some (snd (split_once ''question_0=Paris''))
   \<and> dom (parse_clarifications [''question_0=Paris'', ''question_0=Rome'']) = {''question_0''}"
  by (simp add: parse_clarifications_def split_once_def)

end
